theory Spec2Isabelle
  imports Main "HOL-Library.Sublist"
begin

section \<open>Paths, as pathlib holds them\<close>

text \<open>
  A \<open>pathlib.Path\<close> is an anchor (drive and root, empty for a relative path) and the
  list of its name components. \<open>joinpath\<close> is the operator \<open>/\<close> applied to one relative
  name without separators, the only way the script uses it (\<open>"venv"\<close>, \<open>"Scripts"\<close>,
  \<open>"python.exe"\<close>, \<open>"bin"\<close>, \<open>"python"\<close>, \<open>"platformio"\<close>, \<open>"platformio_env.sh"\<close>).
\<close>

datatype path = Path (anchor: string) (names: "string list")

definition joinpath :: "path \<Rightarrow> string \<Rightarrow> path" where
  "joinpath p name = Path (anchor p) (names p @ [name])"

fun join :: "string \<Rightarrow> string list \<Rightarrow> string" where
  "join sep [] = []"
| "join sep [x] = x"
| "join sep (x # y # ys) = x @ sep @ join sep (y # ys)"

text \<open>
  \<open>sys.platform\<close> is a string of the host. pathlib picks the Windows flavour, with the
  backslash as separator, exactly on the hosts where \<open>sys.platform == "win32"\<close>.
\<close>

definition path_sep :: "string \<Rightarrow> string" where
  "path_sep plat = (if plat = ''win32'' then [CHR 0x5C] else ''/'')"

definition path_str :: "string \<Rightarrow> path \<Rightarrow> string" where
  "path_str plat p =
     (if anchor p = [] \<and> names p = [] then ''.''
      else anchor p @ join (path_sep plat) (names p))"

section \<open>Text: \<open>repr\<close>, \<open>%d\<close> and \<open>strip\<close>\<close>

text \<open>
  A character is a code point below 256. \<open>py_repr\<close> is Python's \<open>repr\<close> of a \<open>str\<close>:
  double quotes when the text holds a single quote and no double quote, single quotes
  otherwise; the quote and the backslash escaped, tab, newline and carriage return by
  letter, every other unprintable code point as \<open>\xNN\<close>.
\<close>

definition hex_digit :: "nat \<Rightarrow> char" where
  "hex_digit n = (''0123456789abcdef'') ! (n mod 16)"

definition printable :: "char \<Rightarrow> bool" where
  "printable c = (let n = (of_char c :: nat) in
     (32 \<le> n \<and> n < 127) \<or> (161 \<le> n \<and> n \<noteq> 173))"

definition repr_char :: "char \<Rightarrow> char \<Rightarrow> string" where
  "repr_char q c =
     (if c = CHR 0x5C then [CHR 0x5C, CHR 0x5C]
      else if c = q then [CHR 0x5C, q]
      else if c = CHR 0x09 then [CHR 0x5C, CHR ''t'']
      else if c = CHR 0x0A then [CHR 0x5C, CHR ''n'']
      else if c = CHR 0x0D then [CHR 0x5C, CHR ''r'']
      else if printable c then [c]
      else [CHR 0x5C, CHR ''x'', hex_digit ((of_char c :: nat) div 16),
            hex_digit ((of_char c :: nat) mod 16)])"

definition repr_quote :: "string \<Rightarrow> char" where
  "repr_quote s = (if CHR 0x27 \<in> set s \<and> CHR 0x22 \<notin> set s then CHR 0x22 else CHR 0x27)"

definition py_repr :: "string \<Rightarrow> string" where
  "py_repr s = (let q = repr_quote s in [q] @ concat (map (repr_char q) s) @ [q])"

definition repr_list :: "string list \<Rightarrow> string" where
  "repr_list xs = ''['' @ join '', '' (map py_repr xs) @ '']''"

fun show_digits :: "nat \<Rightarrow> nat \<Rightarrow> string" where
  "show_digits 0 n = []"
| "show_digits (Suc k) n =
     (if n < 10 then [hex_digit n] else show_digits k (n div 10) @ [hex_digit (n mod 10)])"

text \<open>Decimal digits of a natural number; \<open>Suc n\<close> rounds of division always suffice.\<close>

definition show_nat :: "nat \<Rightarrow> string" where
  "show_nat n = show_digits (Suc n) n"

definition show_int :: "int \<Rightarrow> string" where
  "show_int i = (if i < 0 then ''-'' @ show_nat (nat (- i)) else show_nat (nat i))"

definition py_space :: "char \<Rightarrow> bool" where
  "py_space c = ((of_char c :: nat) \<in> {9, 10, 11, 12, 13, 28, 29, 30, 31, 32, 133, 160})"

definition py_strip :: "string \<Rightarrow> string" where
  "py_strip s = rev (dropWhile py_space (rev (dropWhile py_space s)))"

section \<open>The file system\<close>

datatype node = Dir | File string

type_synonym filesystem = "path \<Rightarrow> node option"

datatype oserr = EEXIST | ENOENT | ENOTDIR | EISDIR

type_synonym cmd = "string list"

text \<open>
  The exceptions the script can meet: \<open>subprocess.CalledProcessError\<close> with its command,
  return code and the captured output and error text (\<open>None\<close> when nothing was captured),
  an \<open>OSError\<close> of the file system with the path it is about, and any other exception,
  known by its message.
\<close>

datatype exn =
    CalledProcessError cmd int "string option" "string option"
  | OSError oserr path
  | Fault string

text \<open>
  The system looks a path up one component at a time, from the anchor: the first
  component that is missing answers \<open>ENOENT\<close>, the first that is a file \<open>ENOTDIR\<close>.
  \<open>walk a rs fsys\<close> is \<open>None\<close> when the path with anchor \<open>a\<close> and the names \<open>rev rs\<close>
  is a directory reached through directories.
\<close>

fun walk :: "string \<Rightarrow> string list \<Rightarrow> filesystem \<Rightarrow> oserr option" where
  "walk a [] fsys =
     (case fsys (Path a []) of
        None \<Rightarrow> Some ENOENT | Some (File _) \<Rightarrow> Some ENOTDIR | Some Dir \<Rightarrow> None)"
| "walk a (n # rs) fsys =
     (case walk a rs fsys of
        Some e \<Rightarrow> Some e
      | None \<Rightarrow>
          (case fsys (Path a (rev (n # rs))) of
             None \<Rightarrow> Some ENOENT | Some (File _) \<Rightarrow> Some ENOTDIR | Some Dir \<Rightarrow> None))"

definition is_dir :: "path \<Rightarrow> filesystem \<Rightarrow> bool" where
  "is_dir p fsys = (walk (anchor p) (rev (names p)) fsys = None)"

text \<open>\<open>os.mkdir\<close>: the parent must be a directory and the path itself new.\<close>

definition os_mkdir :: "path \<Rightarrow> filesystem \<Rightarrow> exn + filesystem" where
  "os_mkdir p fsys =
     (case walk (anchor p) (rev (butlast (names p))) fsys of
        Some e \<Rightarrow> Inl (OSError e p)
      | None \<Rightarrow>
          (case fsys p of
             Some _ \<Rightarrow> Inl (OSError EEXIST p)
           | None \<Rightarrow> Inr (fsys(p \<mapsto> Dir))))"

text \<open>
  \<open>Path.mkdir(exist_ok=...)\<close> without \<open>parents\<close>: a missing parent raises, any other
  error is forgiven when \<open>exist_ok\<close> is set and the path is a directory.
\<close>

definition mkdir :: "bool \<Rightarrow> path \<Rightarrow> filesystem \<Rightarrow> exn + filesystem" where
  "mkdir exist_ok p fsys =
     (case os_mkdir p fsys of
        Inr fsys' \<Rightarrow> Inr fsys'
      | Inl (OSError ENOENT q) \<Rightarrow> Inl (OSError ENOENT q)
      | Inl e \<Rightarrow> (if \<not> exist_ok \<or> \<not> is_dir p fsys then Inl e else Inr fsys))"

text \<open>
  \<open>Path.mkdir(parents=True, exist_ok=True)\<close>: when a parent is missing and the path is
  not its own parent, the parent is created the same way and the path is made after it.
  The recursion is on the name components, last first.
\<close>

fun mkdir_rev :: "string \<Rightarrow> string list \<Rightarrow> filesystem \<Rightarrow> exn + filesystem" where
  "mkdir_rev a [] fsys =
     (case os_mkdir (Path a []) fsys of
        Inr fsys' \<Rightarrow> Inr fsys'
      | Inl (OSError ENOENT q) \<Rightarrow> Inl (OSError ENOENT q)
      | Inl e \<Rightarrow> (if \<not> is_dir (Path a []) fsys then Inl e else Inr fsys))"
| "mkdir_rev a (n # rs) fsys =
     (case os_mkdir (Path a (rev (n # rs))) fsys of
        Inr fsys' \<Rightarrow> Inr fsys'
      | Inl (OSError ENOENT q) \<Rightarrow>
          (case mkdir_rev a rs fsys of
             Inl e \<Rightarrow> Inl e
           | Inr fsys' \<Rightarrow> mkdir True (Path a (rev (n # rs))) fsys')
      | Inl e \<Rightarrow> (if \<not> is_dir (Path a (rev (n # rs))) fsys then Inl e else Inr fsys))"

definition mkdir_parents :: "path \<Rightarrow> filesystem \<Rightarrow> exn + filesystem" where
  "mkdir_parents p fsys = mkdir_rev (anchor p) (rev (names p)) fsys"

text \<open>
  \<open>open(p, "w")\<close>, one \<open>write\<close> and the close of the \<open>with\<close> block: the old content is
  dropped and the file holds the text written.
\<close>

definition write_file :: "path \<Rightarrow> string \<Rightarrow> filesystem \<Rightarrow> exn + filesystem" where
  "write_file p txt fsys =
     (case walk (anchor p) (rev (butlast (names p))) fsys of
        Some e \<Rightarrow> Inl (OSError e p)
      | None \<Rightarrow>
          (case fsys p of
             Some Dir \<Rightarrow> Inl (OSError EISDIR p)
           | _ \<Rightarrow> Inr (fsys(p \<mapsto> File txt))))"

section \<open>The host, the state and the output\<close>

text \<open>
  What a subprocess does is not the script's: the host answers each command, in the file
  system it finds, with its return code and the text of its standard output and standard
  error, or with a fault when the command could not be run at all, and leaves a file
  system behind. \<open>resolve\<close> is \<open>Path.resolve\<close>, which asks the host for the working
  directory and the links on the way. \<open>signal_name\<close> is the host's table of signals and
  \<open>strerror\<close> its wording of a file-system error; both are only read when an exception
  is printed. The command line is taken as parsed: \<open>args\<close> holds what \<open>parse_args\<close>
  returns.
\<close>

datatype proc_outcome = Exited int string string | SpawnFault string

record world =
  platform :: string
  proc :: "cmd \<Rightarrow> filesystem \<Rightarrow> proc_outcome \<times> filesystem"
  resolve :: "path \<Rightarrow> filesystem \<Rightarrow> string + path"
  signal_name :: "nat \<Rightarrow> string option"
  strerror :: "oserr \<Rightarrow> string"

text \<open>
  The trace is everything the run shows outside the file system, in order: a line printed
  by \<open>log\<close>, a call of \<open>subprocess.run\<close> with its command, whether the output is captured
  and the working directory handed to the child (\<open>None\<close>: the child inherits the
  script's), and the output of a child that is not captured and so reaches the script's
  own standard output and standard error.
\<close>

datatype event =
    LogLine string
  | Run cmd bool "string option"
  | PassThrough string string

record state =
  fs :: filesystem
  trace :: "event list"

record args =
  data_dir :: path
  offline :: bool
  python :: string

record completed =
  returncode :: int
  stdout :: "string option"
  stderr :: "string option"

text \<open>\<open>str(e)\<close> of an exception, as \<open>CalledProcessError.__str__\<close> and \<open>OSError\<close> build it.\<close>

definition exn_str :: "world \<Rightarrow> exn \<Rightarrow> string" where
  "exn_str w e =
     (case e of
        CalledProcessError c rc out err \<Rightarrow>
          (if rc < 0 then
             (case signal_name w (nat (- rc)) of
                Some nm \<Rightarrow> ''Command '' @ [CHR 0x27] @ repr_list c @ [CHR 0x27]
                            @ '' died with <Signals.'' @ nm @ '': '' @ show_nat (nat (- rc)) @ ''>.''
              | None \<Rightarrow> ''Command '' @ [CHR 0x27] @ repr_list c @ [CHR 0x27]
                            @ '' died with unknown signal '' @ show_nat (nat (- rc)) @ ''.'')
           else ''Command '' @ [CHR 0x27] @ repr_list c @ [CHR 0x27]
                  @ '' returned non-zero exit status '' @ show_int rc @ ''.'')
      | OSError k p \<Rightarrow> strerror w k @ '': '' @ py_repr (path_str (platform w) p)
      | Fault msg \<Rightarrow> msg)"

definition log :: "string \<Rightarrow> state \<Rightarrow> state" where
  "log msg s = s\<lparr>trace := trace s @ [LogLine (''[setup] '' @ msg)]\<rparr>"

text \<open>
  \<open>subprocess.run(cmd, capture_output=..., text=True, check=True)\<close>, with no \<open>cwd\<close>: the
  script always checks, so a return code other than zero raises.
\<close>

definition subprocess_run :: "world \<Rightarrow> cmd \<Rightarrow> bool \<Rightarrow> state \<Rightarrow> (exn + completed) \<times> state" where
  "subprocess_run w c capture s =
     (case proc w c (fs s) of
        (SpawnFault msg, fsys) \<Rightarrow>
          (Inl (Fault msg), s\<lparr>fs := fsys, trace := trace s @ [Run c capture None]\<rparr>)
      | (Exited rc out err, fsys) \<Rightarrow>
          (let s' = s\<lparr>fs := fsys,
                       trace := trace s @ [Run c capture None]
                                @ (if capture then [] else [PassThrough out err])\<rparr>;
               o_out = (if capture then Some out else None);
               o_err = (if capture then Some err else None)
           in if rc \<noteq> 0 then (Inl (CalledProcessError c rc o_out o_err), s')
              else (Inr \<lparr>returncode = rc, stdout = o_out, stderr = o_err\<rparr>, s')))"

section \<open>The steps of \<open>setup_venv.py\<close>\<close>

definition venv_cmd :: "world \<Rightarrow> path \<Rightarrow> string \<Rightarrow> cmd" where
  "venv_cmd w venv_dir python_exe = [python_exe, ''-m'', ''venv'', path_str (platform w) venv_dir]"

definition create_venv :: "world \<Rightarrow> path \<Rightarrow> string \<Rightarrow> state \<Rightarrow> (exn + unit) \<times> state" where
  "create_venv w venv_dir python_exe s =
     (let s1 = log (''Creating virtual environment at '' @ path_str (platform w) venv_dir) s
      in case subprocess_run w (venv_cmd w venv_dir python_exe) False s1 of
           (Inl e, s2) \<Rightarrow> (Inl e, s2)
         | (Inr r, s2) \<Rightarrow> (Inr (), s2))"

definition get_venv_python :: "world \<Rightarrow> path \<Rightarrow> string" where
  "get_venv_python w venv_dir =
     (if platform w = ''win32''
      then path_str (platform w) (joinpath (joinpath venv_dir ''Scripts'') ''python.exe'')
      else path_str (platform w) (joinpath (joinpath venv_dir ''bin'') ''python''))"

definition upgrade_cmd :: "string \<Rightarrow> cmd" where
  "upgrade_cmd venv_python = [venv_python, ''-m'', ''pip'', ''install'', ''--upgrade'', ''pip'']"

definition install_cmd :: "string \<Rightarrow> bool \<Rightarrow> cmd" where
  "install_cmd venv_python offl =
     [venv_python, ''-m'', ''pip'', ''install'', ''esphome'']
     @ (if offl then [''--no-index'', ''--find-links'', ''wheels''] else [])"

definition install_esphome :: "world \<Rightarrow> string \<Rightarrow> bool \<Rightarrow> state \<Rightarrow> (exn + unit) \<times> state" where
  "install_esphome w venv_python offl s =
     (let s1 = log ''Upgrading pip'' s
      in case subprocess_run w (upgrade_cmd venv_python) False s1 of
           (Inl e, s2) \<Rightarrow> (Inl e, s2)
         | (Inr r, s2) \<Rightarrow>
             (let s3 = log ''Installing ESPHome'' s2
              in case subprocess_run w (install_cmd venv_python offl) False s3 of
                   (Inl e, s4) \<Rightarrow> (Inl e, s4)
                 | (Inr r', s4) \<Rightarrow> (Inr (), s4)))"

definition config_text :: "world \<Rightarrow> path \<Rightarrow> string" where
  "config_text w ddir =
     ''export PLATFORMIO_CORE_DIR='' @ path_str (platform w) (joinpath ddir ''platformio'')
     @ [CHR 0x0A]"

definition configure_platformio :: "world \<Rightarrow> string \<Rightarrow> path \<Rightarrow> state \<Rightarrow> (exn + unit) \<times> state" where
  "configure_platformio w venv_python ddir s =
     (let s1 = log ''Configuring PlatformIO'' s;
          platformio_home = joinpath ddir ''platformio''
      in case mkdir True platformio_home (fs s1) of
           Inl e \<Rightarrow> (Inl e, s1)
         | Inr fs2 \<Rightarrow>
             (let config_file = joinpath ddir ''platformio_env.sh''
              in case write_file config_file (config_text w ddir) fs2 of
                   Inl e \<Rightarrow> (Inl e, s1\<lparr>fs := fs2\<rparr>)
                 | Inr fs3 \<Rightarrow>
                     (Inr (), log (''PlatformIO configured to use ''
                                   @ path_str (platform w) platformio_home) (s1\<lparr>fs := fs3\<rparr>))))"

definition version_cmd :: "string \<Rightarrow> cmd" where
  "version_cmd venv_python = [venv_python, ''-m'', ''esphome'', ''version'']"

text \<open>
  Only \<open>CalledProcessError\<close> is caught in \<open>verify_installation\<close>; any other exception
  leaves the function.
\<close>

definition verify_installation :: "world \<Rightarrow> string \<Rightarrow> state \<Rightarrow> (exn + bool) \<times> state" where
  "verify_installation w venv_python s =
     (let s1 = log ''Verifying installation'' s
      in case subprocess_run w (version_cmd venv_python) True s1 of
           (Inr r, s2) \<Rightarrow>
             (case stdout r of
                None \<Rightarrow> (Inl (Fault ''AttributeError''), s2)
              | Some out \<Rightarrow> (Inr True, log (''ESPHome installed: '' @ py_strip out) s2))
         | (Inl (CalledProcessError c rc out err), s2) \<Rightarrow>
             (Inr False,
              log (''Verification failed: '' @ exn_str w (CalledProcessError c rc out err)) s2)
         | (Inl e, s2) \<Rightarrow> (Inl e, s2))"

text \<open>The body of the \<open>try\<close> block of \<open>main\<close>.\<close>

definition main_steps :: "world \<Rightarrow> args \<Rightarrow> path \<Rightarrow> state \<Rightarrow> (exn + int) \<times> state" where
  "main_steps w a ddir s =
     (let venv_dir = joinpath ddir ''venv''
      in case create_venv w venv_dir (python a) s of
           (Inl e, s1) \<Rightarrow> (Inl e, s1)
         | (Inr u, s1) \<Rightarrow>
             (let venv_python = get_venv_python w venv_dir
              in case install_esphome w venv_python (offline a) s1 of
                   (Inl e, s2) \<Rightarrow> (Inl e, s2)
                 | (Inr u', s2) \<Rightarrow>
                     (case configure_platformio w venv_python ddir s2 of
                        (Inl e, s3) \<Rightarrow> (Inl e, s3)
                      | (Inr u'', s3) \<Rightarrow>
                          (case verify_installation w venv_python s3 of
                             (Inl e, s4) \<Rightarrow> (Inl e, s4)
                           | (Inr ok, s4) \<Rightarrow>
                               (if \<not> ok
                                then (Inr 1, log ''Installation verification failed!'' s4)
                                else (Inr 0, log ''Setup complete!'' s4))))))"

text \<open>The two \<open>except\<close> clauses of \<open>main\<close>, in their order.\<close>

definition main_handlers :: "world \<Rightarrow> (exn + int) \<times> state \<Rightarrow> (exn + int) \<times> state" where
  "main_handlers w r =
     (case r of
        (Inr code, s) \<Rightarrow> (Inr code, s)
      | (Inl (CalledProcessError c rc out err), s) \<Rightarrow>
          (Inr 1, log (''Setup failed: '' @ exn_str w (CalledProcessError c rc out err)) s)
      | (Inl e, s) \<Rightarrow> (Inr 1, log (''Unexpected error: '' @ exn_str w e) s))"

text \<open>
  \<open>main\<close>: the data directory is resolved and created before the \<open>try\<close> block, so an
  exception there leaves \<open>main\<close> (\<open>Inl\<close>); everything after is inside it.
\<close>

definition main :: "world \<Rightarrow> args \<Rightarrow> state \<Rightarrow> (exn + int) \<times> state" where
  "main w a s =
     (case resolve w (data_dir a) (fs s) of
        Inl msg \<Rightarrow> (Inl (Fault msg), s)
      | Inr ddir \<Rightarrow>
          (case mkdir_parents ddir (fs s) of
             Inl e \<Rightarrow> (Inl e, s)
           | Inr fs1 \<Rightarrow> main_handlers w (main_steps w a ddir (s\<lparr>fs := fs1\<rparr>))))"

section \<open>Example hosts\<close>

text \<open>
  A POSIX host whose subprocesses answer by their command alone and leave the file
  system as it is, and a Windows host of the same kind. Paths resolve to themselves.
\<close>

definition posix_strerror :: "oserr \<Rightarrow> string" where
  "posix_strerror k =
     (case k of
        EEXIST \<Rightarrow> ''[Errno 17] File exists''
      | ENOENT \<Rightarrow> ''[Errno 2] No such file or directory''
      | ENOTDIR \<Rightarrow> ''[Errno 20] Not a directory''
      | EISDIR \<Rightarrow> ''[Errno 21] Is a directory'')"

definition host :: "string \<Rightarrow> (cmd \<Rightarrow> proc_outcome) \<Rightarrow> world" where
  "host plat answer =
     \<lparr>platform = plat,
      proc = (\<lambda>c fsys. (answer c, fsys)),
      resolve = (\<lambda>p fsys. Inr p),
      signal_name = (\<lambda>n. if n = 9 then Some ''SIGKILL'' else None),
      strerror = posix_strerror\<rparr>"

definition all_fine :: "cmd \<Rightarrow> proc_outcome" where
  "all_fine c = Exited 0 ''Version: 2024.6.0'' []"

definition fails_on :: "cmd \<Rightarrow> cmd \<Rightarrow> proc_outcome" where
  "fails_on bad c = (if c = bad then Exited 1 [] ''boom'' else all_fine c)"

definition root_only :: filesystem where
  "root_only = [Path ''/'' [] \<mapsto> Dir]"

definition start :: state where
  "start = \<lparr>fs = root_only, trace = []\<rparr>"

definition demo_args :: "bool \<Rightarrow> args" where
  "demo_args offl = \<lparr>data_dir = Path ''/'' [''d''], offline = offl, python = ''python3''\<rparr>"

text \<open>A start on which the data directory's own path is taken by a file.\<close>

definition blocked :: state where
  "blocked = \<lparr>fs = root_only(Path ''/'' [''d''] \<mapsto> File []), trace = []\<rparr>"

text \<open>A start on which a file has the name of the cache directory.\<close>

definition clashing :: state where
  "clashing = \<lparr>fs = root_only(Path ''/'' [''d''] \<mapsto> Dir,
                             Path ''/'' [''d'', ''platformio''] \<mapsto> File []),
               trace = []\<rparr>"

section \<open>What a trace shows\<close>

definition logs_text :: "string \<Rightarrow> event list \<Rightarrow> bool" where
  "logs_text txt evs = list_ex (\<lambda>ev. case ev of LogLine l \<Rightarrow> sublist txt l | _ \<Rightarrow> False) evs"

definition verification_line :: "string \<Rightarrow> bool" where
  "verification_line l =
     (l = ''[setup] Verifying installation''
      \<or> prefix ''[setup] ESPHome installed: '' l
      \<or> prefix ''[setup] Verification failed: '' l
      \<or> l = ''[setup] Installation verification failed!'')"

definition verification_event :: "string \<Rightarrow> event \<Rightarrow> bool" where
  "verification_event vp ev =
     (case ev of
        LogLine l \<Rightarrow> verification_line l
      | Run c cap cw \<Rightarrow> c = version_cmd vp
      | PassThrough out err \<Rightarrow> False)"

text \<open>
  Two runs that differ in the offline flag are compared with the arguments of the install
  command out of sight. They show in two places: in the call of the command, and in
  the line that \<open>main\<close> logs when the command fails, which quotes it. \<open>install_blind\<close>
  gives the call the arguments of the plain command and cuts the line after the part of
  the command both forms share.
\<close>

definition install_failure_prefix :: "string \<Rightarrow> string" where
  "install_failure_prefix vp =
     ''[setup] Setup failed: Command '' @ [CHR 0x27] @ ''[''
     @ join '', '' (map py_repr [vp, ''-m'', ''pip'', ''install'', ''esphome''])"

definition install_blind :: "string \<Rightarrow> event \<Rightarrow> event" where
  "install_blind vp ev =
     (case ev of
        Run c cap cw \<Rightarrow> (if c = install_cmd vp True then Run (install_cmd vp False) cap cw else ev)
      | LogLine l \<Rightarrow>
          (if prefix (install_failure_prefix vp) l then LogLine (install_failure_prefix vp) else ev)
      | PassThrough out err \<Rightarrow> ev)"

text \<open>The steps of \<open>main_steps\<close> that follow the installation.\<close>

definition after_install :: "world \<Rightarrow> string \<Rightarrow> path \<Rightarrow> state \<Rightarrow> (exn + int) \<times> state" where
  "after_install w venv_python ddir s2 =
     (case configure_platformio w venv_python ddir s2 of
        (Inl e, s3) \<Rightarrow> (Inl e, s3)
      | (Inr u'', s3) \<Rightarrow>
          (case verify_installation w venv_python s3 of
             (Inl e, s4) \<Rightarrow> (Inl e, s4)
           | (Inr ok, s4) \<Rightarrow>
               (if \<not> ok
                then (Inr 1, log ''Installation verification failed!'' s4)
                else (Inr 0, log ''Setup complete!'' s4))))"

section \<open>The interpreter path\<close>

lemma join_snoc: "join sep (xs @ [x]) = (if xs = [] then x else join sep xs @ sep @ x)"
  by (induction sep xs rule: join.induct) auto

lemma path_str_joinpath:
  "path_str plat (joinpath p n) =
     (if names p = [] then anchor p @ n else path_str plat p @ path_sep plat @ n)"
  by (simp add: path_str_def joinpath_def join_snoc)

text \<open>
  C7. \<open>get_venv_python\<close> is a function of the host platform and the environment's path
  alone: it takes no state and returns no error. Where \<open>sys.platform\<close> is \<open>win32\<close> it is
  the path of the environment followed by the components \<open>Scripts\<close> and \<open>python.exe\<close>,
  on every other platform followed by \<open>bin\<close> and \<open>python\<close>, written with the
  separator of the platform.
\<close>

theorem get_venv_python_layout:
  "(platform w = ''win32'' \<longrightarrow>
      get_venv_python w v = anchor v @ join [CHR 0x5C] (names v @ [''Scripts'', ''python.exe'']))
   \<and> (platform w \<noteq> ''win32'' \<longrightarrow>
      get_venv_python w v = anchor v @ join ''/'' (names v @ [''bin'', ''python'']))"
  by (simp add: get_venv_python_def path_str_def joinpath_def path_sep_def)

theorem get_venv_python_layout_witness:
  "get_venv_python (host ''win32'' all_fine) (Path [CHR ''C'', CHR '':'', CHR 0x5C] [''d'', ''venv''])
     = [CHR ''C'', CHR '':'', CHR 0x5C] @ ''d'' @ [CHR 0x5C] @ ''venv'' @ [CHR 0x5C]
       @ ''Scripts'' @ [CHR 0x5C] @ ''python.exe''
   \<and> get_venv_python (host ''linux'' all_fine) (Path ''/'' [''d'', ''venv''])
     = ''/d/venv/bin/python''"
  using get_venv_python_layout [of "host ''win32'' all_fine" "Path [CHR ''C'', CHR '':'', CHR 0x5C] [''d'', ''venv'']"]
        get_venv_python_layout [of "host ''linux'' all_fine" "Path ''/'' [''d'', ''venv'']"]
  by (simp add: host_def)

section \<open>Subprocesses and the steps that run them\<close>

lemma exn_str_called_process_error:
  "exn_str w (CalledProcessError c rc out err) = exn_str w (CalledProcessError c rc None None)"
  by (simp add: exn_str_def)

lemma subprocess_run_zero:
  "proc w c (fs s) = (Exited 0 out err, fsys) \<Longrightarrow>
   subprocess_run w c cap s =
     (Inr \<lparr>returncode = 0, stdout = (if cap then Some out else None),
            stderr = (if cap then Some err else None)\<rparr>,
      s\<lparr>fs := fsys,
        trace := trace s @ Run c cap None # (if cap then [] else [PassThrough out err])\<rparr>)"
  by (simp add: subprocess_run_def)

lemma subprocess_run_nonzero:
  "proc w c (fs s) = (Exited rc out err, fsys) \<Longrightarrow> rc \<noteq> 0 \<Longrightarrow>
   subprocess_run w c cap s =
     (Inl (CalledProcessError c rc (if cap then Some out else None)
             (if cap then Some err else None)),
      s\<lparr>fs := fsys,
        trace := trace s @ Run c cap None # (if cap then [] else [PassThrough out err])\<rparr>)"
  by (simp add: subprocess_run_def)

lemma subprocess_run_fault:
  "proc w c (fs s) = (SpawnFault msg, fsys) \<Longrightarrow>
   subprocess_run w c cap s = (Inl (Fault msg), s\<lparr>fs := fsys, trace := trace s @ [Run c cap None]\<rparr>)"
  by (simp add: subprocess_run_def)

lemma create_venv_zero:
  "proc w (venv_cmd w vd py) (fs s) = (Exited 0 out err, fsys) \<Longrightarrow>
   create_venv w vd py s =
     (Inr (), s\<lparr>fs := fsys,
                trace := trace s @ [LogLine (''[setup] Creating virtual environment at ''
                                              @ path_str (platform w) vd),
                                    Run (venv_cmd w vd py) False None, PassThrough out err]\<rparr>)"
  by (simp add: create_venv_def log_def subprocess_run_def)

lemma create_venv_nonzero:
  "proc w (venv_cmd w vd py) (fs s) = (Exited rc out err, fsys) \<Longrightarrow> rc \<noteq> 0 \<Longrightarrow>
   create_venv w vd py s =
     (Inl (CalledProcessError (venv_cmd w vd py) rc None None),
      s\<lparr>fs := fsys,
        trace := trace s @ [LogLine (''[setup] Creating virtual environment at ''
                                      @ path_str (platform w) vd),
                            Run (venv_cmd w vd py) False None, PassThrough out err]\<rparr>)"
  by (simp add: create_venv_def log_def subprocess_run_def)

lemma install_esphome_upgrade_nonzero:
  "proc w (upgrade_cmd vp) (fs s) = (Exited rc out err, fsys) \<Longrightarrow> rc \<noteq> 0 \<Longrightarrow>
   install_esphome w vp offl s =
     (Inl (CalledProcessError (upgrade_cmd vp) rc None None),
      s\<lparr>fs := fsys,
        trace := trace s @ [LogLine ''[setup] Upgrading pip'',
                            Run (upgrade_cmd vp) False None, PassThrough out err]\<rparr>)"
  by (simp add: install_esphome_def log_def subprocess_run_def)

lemma install_esphome_install_nonzero:
  "proc w (upgrade_cmd vp) (fs s) = (Exited 0 out err, fsys) \<Longrightarrow>
   proc w (install_cmd vp offl) fsys = (Exited rc out' err', fsys') \<Longrightarrow> rc \<noteq> 0 \<Longrightarrow>
   install_esphome w vp offl s =
     (Inl (CalledProcessError (install_cmd vp offl) rc None None),
      s\<lparr>fs := fsys',
        trace := trace s @ [LogLine ''[setup] Upgrading pip'',
                            Run (upgrade_cmd vp) False None, PassThrough out err,
                            LogLine ''[setup] Installing ESPHome'',
                            Run (install_cmd vp offl) False None, PassThrough out' err']\<rparr>)"
  by (simp add: install_esphome_def log_def subprocess_run_def)

lemma install_esphome_zero:
  "proc w (upgrade_cmd vp) (fs s) = (Exited 0 out err, fsys) \<Longrightarrow>
   proc w (install_cmd vp offl) fsys = (Exited 0 out' err', fsys') \<Longrightarrow>
   install_esphome w vp offl s =
     (Inr (),
      s\<lparr>fs := fsys',
        trace := trace s @ [LogLine ''[setup] Upgrading pip'',
                            Run (upgrade_cmd vp) False None, PassThrough out err,
                            LogLine ''[setup] Installing ESPHome'',
                            Run (install_cmd vp offl) False None, PassThrough out' err']\<rparr>)"
  by (simp add: install_esphome_def log_def subprocess_run_def)

lemma verify_installation_zero:
  "proc w (version_cmd vp) (fs s) = (Exited 0 out err, fsys) \<Longrightarrow>
   verify_installation w vp s =
     (Inr True,
      s\<lparr>fs := fsys,
        trace := trace s @ [LogLine ''[setup] Verifying installation'',
                            Run (version_cmd vp) True None,
                            LogLine (''[setup] ESPHome installed: '' @ py_strip out)]\<rparr>)"
  by (simp add: verify_installation_def log_def subprocess_run_def)

lemma verify_installation_nonzero:
  "proc w (version_cmd vp) (fs s) = (Exited rc out err, fsys) \<Longrightarrow> rc \<noteq> 0 \<Longrightarrow>
   verify_installation w vp s =
     (Inr False,
      s\<lparr>fs := fsys,
        trace := trace s @ [LogLine ''[setup] Verifying installation'',
                            Run (version_cmd vp) True None,
                            LogLine (''[setup] Verification failed: ''
                               @ exn_str w (CalledProcessError (version_cmd vp) rc None None))]\<rparr>)"
  by (simp add: verify_installation_def log_def subprocess_run_def
        exn_str_called_process_error [of w _ _ "Some out" "Some err"])

lemma create_venv_succeeds_iff:
  "(\<exists>s'. create_venv w vd py s = (Inr (), s'))
   \<longleftrightarrow> (\<exists>out err fsys. proc w (venv_cmd w vd py) (fs s) = (Exited 0 out err, fsys))"
  by (auto simp add: create_venv_def log_def subprocess_run_def Let_def
        split: prod.splits proc_outcome.splits sum.splits if_splits)

lemma install_esphome_succeeds_iff:
  "(\<exists>s'. install_esphome w vp offl s = (Inr (), s'))
   \<longleftrightarrow> (\<exists>out err fsys out' err' fsys'.
          proc w (upgrade_cmd vp) (fs s) = (Exited 0 out err, fsys)
          \<and> proc w (install_cmd vp offl) fsys = (Exited 0 out' err', fsys'))"
  by (auto simp add: install_esphome_def log_def subprocess_run_def Let_def
        split: prod.splits proc_outcome.splits sum.splits if_splits)

lemma verify_installation_true_iff:
  "(\<exists>s'. verify_installation w vp s = (Inr True, s'))
   \<longleftrightarrow> (\<exists>out err fsys. proc w (version_cmd vp) (fs s) = (Exited 0 out err, fsys))"
  by (auto simp add: verify_installation_def log_def subprocess_run_def Let_def
        split: prod.splits proc_outcome.splits sum.splits if_splits exn.splits option.splits)

lemma main_after_prep:
  "resolve w (data_dir a) (fs s) = Inr ddir \<Longrightarrow> mkdir_parents ddir (fs s) = Inr fs1 \<Longrightarrow>
   main w a s = main_handlers w (main_steps w a ddir (s\<lparr>fs := fs1\<rparr>))"
  by (simp add: main_def)

text \<open>Running the script on the example hosts.\<close>

lemmas run_defs =
  main_def main_steps_def main_handlers_def create_venv_def install_esphome_def
  configure_platformio_def verify_installation_def subprocess_run_def log_def
  get_venv_python_def venv_cmd_def upgrade_cmd_def install_cmd_def version_cmd_def
  config_text_def mkdir_parents_def mkdir_def os_mkdir_def write_file_def is_dir_def
  joinpath_def path_str_def path_sep_def host_def all_fine_def fails_on_def start_def
  root_only_def demo_args_def Let_def

lemma demo_prep:
  "resolve (host plat f) (data_dir (demo_args b)) (fs start) = Inr (Path ''/'' [''d''])"
  "mkdir_parents (Path ''/'' [''d'']) (fs start) = Inr (root_only(Path ''/'' [''d''] \<mapsto> Dir))"
  by (simp_all add: run_defs)

lemma show_int_1: "show_int 1 = ''1''"
  by (simp add: show_int_def show_nat_def hex_digit_def)

lemma py_repr_simple [simp]: "py_repr ''py'' = [CHR 0x27] @ ''py'' @ [CHR 0x27]"
  by (simp add: py_repr_def repr_quote_def repr_char_def printable_def Let_def)

section \<open>Verification\<close>

text \<open>
  C3, as amended. \<open>verify_installation\<close> runs the version command with its output
  captured: the trace gains the call, marked as captured, and no output of the child.
  When the command exits with 0 the function logs the captured standard output,
  stripped, and returns \<open>True\<close>. When it exits with another code the function returns
  \<open>False\<close> and logs the message of the \<open>CalledProcessError\<close>, which is made of the
  command and the return code: the captured standard error is not in it.
\<close>

theorem verify_installation_outcomes:
  "(proc w (version_cmd vp) (fs s) = (Exited 0 out err, fsys) \<longrightarrow>
      verify_installation w vp s =
        (Inr True,
         s\<lparr>fs := fsys,
           trace := trace s @ [LogLine ''[setup] Verifying installation'',
                               Run (version_cmd vp) True None,
                               LogLine (''[setup] ESPHome installed: '' @ py_strip out)]\<rparr>))
   \<and> (rc \<noteq> 0 \<and> proc w (version_cmd vp) (fs s) = (Exited rc out err, fsys) \<longrightarrow>
      verify_installation w vp s =
        (Inr False,
         s\<lparr>fs := fsys,
           trace := trace s @ [LogLine ''[setup] Verifying installation'',
                               Run (version_cmd vp) True None,
                               LogLine (''[setup] Verification failed: ''
                                  @ exn_str w (CalledProcessError (version_cmd vp) rc None None))]\<rparr>))"
  using verify_installation_zero verify_installation_nonzero by blast

theorem verify_installation_outcomes_witness:
  "verify_installation (host ''linux'' all_fine) ''py'' start =
     (Inr True, \<lparr>fs = root_only, trace = [LogLine ''[setup] Verifying installation'',
         Run [''py'', ''-m'', ''esphome'', ''version''] True None,
         LogLine ''[setup] ESPHome installed: Version: 2024.6.0'']\<rparr>)
   \<and> fst (verify_installation (host ''linux'' (fails_on (version_cmd ''py''))) ''py'' start) = Inr False"
  using verify_installation_outcomes [of "host ''linux'' all_fine" "''py''" start "''Version: 2024.6.0''" "[]" root_only 1 ]
   verify_installation_outcomes [of "host ''linux'' (fails_on (version_cmd ''py''))" "''py''" start "[]" "''boom''" root_only 1]
  by (simp add: host_def all_fine_def fails_on_def start_def version_cmd_def py_strip_def py_space_def)

text \<open>
  The claim as it was stated fails where the version command exits with 1 after writing
  \<open>boom\<close> to its standard error: no line of the log holds that text.
\<close>

theorem verify_installation_stderr_counterexample:
  "proc (host ''linux'' (fails_on (version_cmd ''py''))) (version_cmd ''py'') (fs start)
     = (Exited 1 [] ''boom'', root_only)
   \<and> fst (verify_installation (host ''linux'' (fails_on (version_cmd ''py''))) ''py'' start) = Inr False
   \<and> \<not> logs_text ''boom''
        (trace (snd (verify_installation (host ''linux'' (fails_on (version_cmd ''py''))) ''py'' start)))"
  apply (simp add: verify_installation_def log_def subprocess_run_def host_def fails_on_def start_def
      exn_str_def repr_list_def show_int_1 logs_text_def Let_def py_repr_def repr_quote_def repr_char_def printable_def version_cmd_def)
  apply (simp add: sublist_code)
  done

section \<open>The exit code\<close>

text \<open>
  C1. Once the data directory is resolved and created, \<open>main\<close> returns 0 exactly when
  the creation of the environment, the installation (both calls of the installer), the
  configuration and the verification succeed, each on the state its predecessor left;
  in every other case it returns 1.
\<close>

theorem main_exit_code:
  assumes "resolve w (data_dir a) (fs s) = Inr ddir"
      and "mkdir_parents ddir (fs s) = Inr fs1"
  shows "(fst (main w a s) = Inr 0
          \<longleftrightarrow> (\<exists>s1 s2 s3 s4.
                 create_venv w (joinpath ddir ''venv'') (python a) (s\<lparr>fs := fs1\<rparr>) = (Inr (), s1)
                 \<and> install_esphome w (get_venv_python w (joinpath ddir ''venv'')) (offline a) s1
                     = (Inr (), s2)
                 \<and> configure_platformio w (get_venv_python w (joinpath ddir ''venv'')) ddir s2
                     = (Inr (), s3)
                 \<and> verify_installation w (get_venv_python w (joinpath ddir ''venv'')) s3
                     = (Inr True, s4)))
         \<and> (fst (main w a s) = Inr 0 \<or> fst (main w a s) = Inr 1)"
  unfolding main_after_prep [OF assms]
  by (auto simp add: main_steps_def main_handlers_def Let_def
        split: prod.splits sum.splits exn.splits if_splits)

theorem main_exit_code_witness:
  "fst (main (host ''linux'' all_fine) (demo_args False) start) = Inr 0
   \<and> (\<exists>s1 s2 s3 s4.
         create_venv (host ''linux'' all_fine) (joinpath (Path ''/'' [''d'']) ''venv'')
           (python (demo_args False)) (start\<lparr>fs := root_only(Path ''/'' [''d''] \<mapsto> Dir)\<rparr>) = (Inr (), s1)
         \<and> install_esphome (host ''linux'' all_fine)
             (get_venv_python (host ''linux'' all_fine) (joinpath (Path ''/'' [''d'']) ''venv''))
             (offline (demo_args False)) s1 = (Inr (), s2)
         \<and> configure_platformio (host ''linux'' all_fine)
             (get_venv_python (host ''linux'' all_fine) (joinpath (Path ''/'' [''d'']) ''venv''))
             (Path ''/'' [''d'']) s2 = (Inr (), s3)
         \<and> verify_installation (host ''linux'' all_fine)
             (get_venv_python (host ''linux'' all_fine) (joinpath (Path ''/'' [''d'']) ''venv'')) s3
             = (Inr True, s4))"
proof -
  have run: "fst (main (host ''linux'' all_fine) (demo_args False) start) = Inr 0"
    by (simp add: run_defs)
  from main_exit_code [OF demo_prep(1) demo_prep(2), of "''linux''" all_fine False] run
  show ?thesis by blast
qed

section \<open>Failures of the steps\<close>

lemma verification_line_log:
  "verification_line (''[setup] '' @ msg) \<longleftrightarrow>
     msg = ''Verifying installation'' \<or> prefix ''ESPHome installed: '' msg
     \<or> prefix ''Verification failed: '' msg \<or> msg = ''Installation verification failed!''"
  by (simp add: verification_line_def)

lemmas verification_line_cons = verification_line_log [simplified]

lemma create_venv_emits:
  "create_venv w vd py s = (r, s') \<Longrightarrow>
   \<exists>evs. trace s' = trace s @ evs \<and> list_all (\<lambda>ev. \<not> verification_event vp ev) evs"
  by (auto simp add: create_venv_def log_def subprocess_run_def Let_def verification_event_def
        verification_line_cons venv_cmd_def version_cmd_def
        split: prod.splits proc_outcome.splits sum.splits if_splits)

lemma install_esphome_emits:
  "install_esphome w vp' offl s = (r, s') \<Longrightarrow>
   \<exists>evs. trace s' = trace s @ evs \<and> list_all (\<lambda>ev. \<not> verification_event vp ev) evs"
  by (auto simp add: install_esphome_def log_def subprocess_run_def Let_def verification_event_def
        verification_line_cons upgrade_cmd_def install_cmd_def version_cmd_def
        split: prod.splits proc_outcome.splits sum.splits if_splits)

lemma main_handlers_raised:
  "main_handlers w (Inl e, s') =
     (Inr 1, s'\<lparr>trace := trace s' @ [LogLine (''[setup] ''
        @ (case e of CalledProcessError c rc out err \<Rightarrow> ''Setup failed: ''
                   | _ \<Rightarrow> ''Unexpected error: '') @ exn_str w e)]\<rparr>)"
  by (cases e) (simp_all add: main_handlers_def log_def)

lemma demo_install_fails:
  "create_venv (host ''linux'' (fails_on (install_cmd ''/d/venv/bin/python'' False)))
     (joinpath (Path ''/'' [''d'']) ''venv'') (python (demo_args False))
     (start\<lparr>fs := root_only(Path ''/'' [''d''] \<mapsto> Dir)\<rparr>)
   = (Inr (),
      snd (create_venv (host ''linux'' (fails_on (install_cmd ''/d/venv/bin/python'' False)))
             (joinpath (Path ''/'' [''d'']) ''venv'') (python (demo_args False))
             (start\<lparr>fs := root_only(Path ''/'' [''d''] \<mapsto> Dir)\<rparr>)))"
  "install_esphome (host ''linux'' (fails_on (install_cmd ''/d/venv/bin/python'' False)))
     (get_venv_python (host ''linux'' (fails_on (install_cmd ''/d/venv/bin/python'' False)))
        (joinpath (Path ''/'' [''d'']) ''venv''))
     (offline (demo_args False))
     (snd (create_venv (host ''linux'' (fails_on (install_cmd ''/d/venv/bin/python'' False)))
             (joinpath (Path ''/'' [''d'']) ''venv'') (python (demo_args False))
             (start\<lparr>fs := root_only(Path ''/'' [''d''] \<mapsto> Dir)\<rparr>)))
   = (Inl (CalledProcessError (install_cmd ''/d/venv/bin/python'' False) 1 None None),
      \<lparr>fs = root_only(Path ''/'' [''d''] \<mapsto> Dir),
       trace = [LogLine ''[setup] Creating virtual environment at /d/venv'',
                Run [''python3'', ''-m'', ''venv'', ''/d/venv''] False None,
                PassThrough ''Version: 2024.6.0'' [],
                LogLine ''[setup] Upgrading pip'',
                Run (upgrade_cmd ''/d/venv/bin/python'') False None,
                PassThrough ''Version: 2024.6.0'' [],
                LogLine ''[setup] Installing ESPHome'',
                Run (install_cmd ''/d/venv/bin/python'' False) False None,
                PassThrough [] ''boom'']\<rparr>)"
  by (simp_all add: run_defs)

text \<open>
  C4, as amended. Every failure inside the \<open>try\<close> block of \<open>main\<close>, that is every
  exception raised while the environment is created, the package installed, PlatformIO
  configured or the installation verified, is caught by \<open>main\<close>: a line is logged,
  \<open>Setup failed:\<close> for a \<open>CalledProcessError\<close> and \<open>Unexpected error:\<close> for anything
  else, followed by the message of the exception, and \<open>main\<close> returns 1.
\<close>

theorem step_failures_are_caught:
  assumes "resolve w (data_dir a) (fs s) = Inr ddir"
      and "mkdir_parents ddir (fs s) = Inr fs1"
      and "create_venv w (joinpath ddir ''venv'') (python a) (s\<lparr>fs := fs1\<rparr>) = (Inl e, s')
           \<or> (create_venv w (joinpath ddir ''venv'') (python a) (s\<lparr>fs := fs1\<rparr>) = (Inr (), s1)
               \<and> install_esphome w (get_venv_python w (joinpath ddir ''venv'')) (offline a) s1
                   = (Inl e, s'))
           \<or> (create_venv w (joinpath ddir ''venv'') (python a) (s\<lparr>fs := fs1\<rparr>) = (Inr (), s1)
               \<and> install_esphome w (get_venv_python w (joinpath ddir ''venv'')) (offline a) s1
                   = (Inr (), s2)
               \<and> configure_platformio w (get_venv_python w (joinpath ddir ''venv'')) ddir s2
                   = (Inl e, s'))
           \<or> (create_venv w (joinpath ddir ''venv'') (python a) (s\<lparr>fs := fs1\<rparr>) = (Inr (), s1)
               \<and> install_esphome w (get_venv_python w (joinpath ddir ''venv'')) (offline a) s1
                   = (Inr (), s2)
               \<and> configure_platformio w (get_venv_python w (joinpath ddir ''venv'')) ddir s2
                   = (Inr (), s3)
               \<and> verify_installation w (get_venv_python w (joinpath ddir ''venv'')) s3
                   = (Inl e, s'))"
  shows "main w a s =
           (Inr 1,
            s'\<lparr>trace := trace s' @ [LogLine (''[setup] ''
               @ (case e of CalledProcessError c rc out err \<Rightarrow> ''Setup failed: ''
                          | _ \<Rightarrow> ''Unexpected error: '') @ exn_str w e)]\<rparr>)"
proof -
  from assms(3) have "main_steps w a ddir (s\<lparr>fs := fs1\<rparr>) = (Inl e, s')"
    by (auto simp add: main_steps_def Let_def)
  then show ?thesis
    by (simp add: main_after_prep [OF assms(1,2)] main_handlers_raised)
qed

theorem step_failures_are_caught_witness:
  "main (host ''linux'' (fails_on (install_cmd ''/d/venv/bin/python'' False))) (demo_args False) start
   = (Inr 1,
      \<lparr>fs = root_only(Path ''/'' [''d''] \<mapsto> Dir),
       trace = [LogLine ''[setup] Creating virtual environment at /d/venv'',
                Run [''python3'', ''-m'', ''venv'', ''/d/venv''] False None,
                PassThrough ''Version: 2024.6.0'' [],
                LogLine ''[setup] Upgrading pip'',
                Run (upgrade_cmd ''/d/venv/bin/python'') False None,
                PassThrough ''Version: 2024.6.0'' [],
                LogLine ''[setup] Installing ESPHome'',
                Run (install_cmd ''/d/venv/bin/python'' False) False None,
                PassThrough [] ''boom'',
                LogLine (''[setup] Setup failed: ''
                  @ exn_str (host ''linux'' (fails_on (install_cmd ''/d/venv/bin/python'' False)))
                      (CalledProcessError (install_cmd ''/d/venv/bin/python'' False) 1 None None))]\<rparr>)"
  using step_failures_are_caught [OF demo_prep(1) demo_prep(2) disjI2 [OF disjI1 [OF conjI [OF demo_install_fails(1) demo_install_fails(2)]]]]
  by simp

text \<open>
  The claim as it was stated, for every failure of the run, fails before the \<open>try\<close>
  block: when the path of the data directory is taken by a file, \<open>mkdir\<close> raises
  \<open>FileExistsError\<close>, which leaves \<open>main\<close> with nothing logged.
\<close>

theorem data_dir_failure_counterexample:
  "main (host ''linux'' all_fine) (demo_args False) blocked
     = (Inl (OSError EEXIST (Path ''/'' [''d''])), blocked)
   \<and> trace blocked = []"
  by (simp add: run_defs blocked_def)

text \<open>
  C6. When the installation step fails, by either call of the installer, \<open>main\<close>
  returns 1 and nothing of the verification shows in the run: neither the version
  command nor any of the lines that \<open>verify_installation\<close> and \<open>main\<close> log about it.
\<close>

theorem install_failure_skips_verification:
  assumes "resolve w (data_dir a) (fs s) = Inr ddir"
      and "mkdir_parents ddir (fs s) = Inr fs1"
      and "create_venv w (joinpath ddir ''venv'') (python a) (s\<lparr>fs := fs1\<rparr>) = (Inr (), s1)"
      and "install_esphome w (get_venv_python w (joinpath ddir ''venv'')) (offline a) s1
             = (Inl e, s2)"
  shows "fst (main w a s) = Inr 1
         \<and> (\<exists>evs. trace (snd (main w a s)) = trace s @ evs
                \<and> list_all (\<lambda>ev. \<not> verification_event
                                      (get_venv_python w (joinpath ddir ''venv'')) ev) evs)"
proof -
  let ?vp = "get_venv_python w (joinpath ddir ''venv'')"
  have steps: "main_steps w a ddir (s\<lparr>fs := fs1\<rparr>) = (Inl e, s2)"
    using assms(3,4) by (simp add: main_steps_def Let_def)
  have m: "main w a s = main_handlers w (Inl e, s2)"
    by (simp add: main_after_prep [OF assms(1,2)] steps)
  from create_venv_emits [OF assms(3), of ?vp] obtain evs1 where
    e1: "trace s1 = trace s @ evs1" "list_all (\<lambda>ev. \<not> verification_event ?vp ev) evs1"
    by auto
  from install_esphome_emits [OF assms(4), of ?vp] obtain evs2 where
    e2: "trace s2 = trace s1 @ evs2" "list_all (\<lambda>ev. \<not> verification_event ?vp ev) evs2"
    by auto
  have last: "\<not> verification_event ?vp (LogLine (''[setup] ''
        @ (case e of CalledProcessError c rc out err \<Rightarrow> ''Setup failed: ''
                   | _ \<Rightarrow> ''Unexpected error: '') @ exn_str w e))"
    by (cases e) (simp_all add: verification_event_def verification_line_cons)
  show ?thesis
    unfolding m main_handlers_raised
    using e1 e2 last by simp
qed

theorem install_failure_skips_verification_witness:
  "fst (main (host ''linux'' (fails_on (install_cmd ''/d/venv/bin/python'' False))) (demo_args False) start)
     = Inr 1
   \<and> list_all (\<lambda>ev. \<not> verification_event ''/d/venv/bin/python'' ev)
       (trace (snd (main (host ''linux'' (fails_on (install_cmd ''/d/venv/bin/python'' False)))
                      (demo_args False) start)))"
proof -
  have vp: "get_venv_python (host ''linux'' (fails_on (install_cmd ''/d/venv/bin/python'' False)))
              (joinpath (Path ''/'' [''d'']) ''venv'') = ''/d/venv/bin/python''"
    by (simp add: run_defs)
  have t: "trace start = []" by (simp add: start_def)
  from install_failure_skips_verification [OF demo_prep(1) demo_prep(2) demo_install_fails(1) demo_install_fails(2)]
  show ?thesis unfolding vp t by auto
qed

section \<open>The configuration step\<close>

lemma fs_log: "fs (log msg s) = fs s"
  by (simp add: log_def)

lemma walk_upd_longer:
  "length rs < length ns \<Longrightarrow> walk a rs (fsys(Path a' ns \<mapsto> v)) = walk a rs fsys"
proof (induction rs)
  case Nil
  then show ?case by auto
next
  case (Cons r rs)
  then have "Path a (rev (r # rs)) \<noteq> Path a' ns"
    by (metis length_rev less_irrefl path.inject)
  with Cons show ?case by auto
qed

lemma is_dir_joinpath:
  "is_dir (joinpath p n) fsys \<longleftrightarrow> is_dir p fsys \<and> fsys (joinpath p n) = Some Dir"
  by (auto simp add: is_dir_def joinpath_def split: option.splits node.splits)

lemma mkdir_child:
  assumes "is_dir p fsys" and "fsys (joinpath p n) = None \<or> fsys (joinpath p n) = Some Dir"
  shows "mkdir True (joinpath p n) fsys = Inr (fsys(joinpath p n \<mapsto> Dir))"
proof -
  have par: "walk (anchor (joinpath p n)) (rev (butlast (names (joinpath p n)))) fsys = None"
    using assms(1) by (simp add: is_dir_def joinpath_def)
  from assms(2) show ?thesis
  proof
    assume "fsys (joinpath p n) = None"
    then show ?thesis by (simp add: mkdir_def os_mkdir_def par)
  next
    assume d: "fsys (joinpath p n) = Some Dir"
    then have "fsys(joinpath p n \<mapsto> Dir) = fsys" by (simp add: fun_upd_idem)
    moreover have "is_dir (joinpath p n) fsys" using assms(1) d by (simp add: is_dir_joinpath)
    ultimately show ?thesis using d by (simp add: mkdir_def os_mkdir_def par)
  qed
qed

lemma write_file_child:
  assumes "is_dir p fsys" and "fsys (joinpath p n) \<noteq> Some Dir"
  shows "write_file (joinpath p n) txt fsys = Inr (fsys(joinpath p n \<mapsto> File txt))"
proof -
  have par: "walk (anchor (joinpath p n)) (rev (butlast (names (joinpath p n)))) fsys = None"
    using assms(1) by (simp add: is_dir_def joinpath_def)
  show ?thesis using assms(2)
    by (simp add: write_file_def par split: option.splits node.splits)
qed

lemma is_dir_upd_child:
  "is_dir p (fsys(joinpath p n \<mapsto> v)) = is_dir p fsys"
  by (simp add: is_dir_def joinpath_def walk_upd_longer)

text \<open>
  After \<open>mkdir(parents=True, exist_ok=True)\<close> has succeeded the path is a directory:
  this is the state of the data directory when \<open>main\<close> enters its \<open>try\<close> block.
\<close>

lemma mkdir_is_dir:
  assumes "mkdir True p fsys = Inr fs1"
  shows "is_dir p fs1"
proof (cases "walk (anchor p) (rev (butlast (names p))) fsys")
  case None
  show ?thesis
  proof (cases "fsys p")
    case n: None
    then have "fs1 = fsys(p \<mapsto> Dir)" using assms None by (simp add: mkdir_def os_mkdir_def)
    moreover have "is_dir p (fsys(p \<mapsto> Dir))"
    proof (cases "names p" rule: rev_cases)
      case Nil
      then show ?thesis by (cases p) (simp add: is_dir_def)
    next
      case (snoc ns n)
      then have "walk (anchor p) (rev ns) (fsys(Path (anchor p) (ns @ [n]) \<mapsto> Dir)) = None"
        using None by (simp add: walk_upd_longer)
      then show ?thesis using snoc by (cases p) (simp add: is_dir_def)
    qed
    ultimately show ?thesis by simp
  next
    case (Some nd)
    then show ?thesis using assms None
      by (simp add: mkdir_def os_mkdir_def split: if_splits)
  qed
next
  case (Some e)
  then show ?thesis using assms
    by (cases e) (simp_all add: mkdir_def os_mkdir_def split: if_splits)
qed

lemma mkdir_rev_is_dir:
  "mkdir_rev a rs fsys = Inr fs1 \<Longrightarrow> walk a rs fs1 = None"
proof (induction rs arbitrary: fs1)
  case Nil
  then have "mkdir True (Path a []) fsys = Inr fs1"
    by (simp add: mkdir_def split: sum.splits exn.splits oserr.splits if_splits)
  from mkdir_is_dir [OF this] show ?case by (simp add: is_dir_def)
next
  case (Cons n rs)
  show ?case
  proof (cases "os_mkdir (Path a (rev (n # rs))) fsys")
    case (Inr f)
    with Cons.prems have "mkdir True (Path a (rev (n # rs))) fsys = Inr fs1"
      by (simp add: mkdir_def)
    from mkdir_is_dir [OF this] show ?thesis by (simp add: is_dir_def)
  next
    case (Inl e)
    show ?thesis
    proof (cases "\<exists>q. e = OSError ENOENT q")
      case True
      then obtain q where e: "e = OSError ENOENT q" by blast
      with Cons.prems Inl obtain f where
        "mkdir_rev a rs fsys = Inr f" "mkdir True (Path a (rev (n # rs))) f = Inr fs1"
        by (auto split: sum.splits)
      from mkdir_is_dir [OF this(2)] show ?thesis by (simp add: is_dir_def)
    next
      case False
      with Cons.prems Inl have "mkdir True (Path a (rev (n # rs))) fsys = Inr fs1"
        by (cases e; simp add: mkdir_def split: oserr.splits if_splits)
      from mkdir_is_dir [OF this] show ?thesis by (simp add: is_dir_def)
    qed
  qed
qed

lemma mkdir_parents_is_dir:
  "mkdir_parents p fsys = Inr fs1 \<Longrightarrow> is_dir p fs1"
  by (simp add: mkdir_parents_def is_dir_def mkdir_rev_is_dir)

text \<open>
  C8, as amended. When the data directory is a directory, the name \<open>platformio\<close> in it
  is free or already a directory, and the name \<open>platformio_env.sh\<close> in it is not a
  directory, \<open>configure_platformio\<close> succeeds: afterwards \<open>platformio\<close> is a directory
  and \<open>platformio_env.sh\<close> is a file that holds, whatever it held before, exactly the
  line \<open>export PLATFORMIO_CORE_DIR=\<close> followed by the path of that directory and a
  newline. Nothing else in the file system changes. \<open>main\<close> hands the resolved data
  directory to this step.
\<close>

theorem configure_platformio_writes_config:
  assumes "is_dir ddir (fs s)"
      and "fs s (joinpath ddir ''platformio'') = None
           \<or> fs s (joinpath ddir ''platformio'') = Some Dir"
      and "fs s (joinpath ddir ''platformio_env.sh'') \<noteq> Some Dir"
  shows "configure_platformio w vp ddir s =
           (Inr (),
            s\<lparr>fs := (fs s)(joinpath ddir ''platformio'' \<mapsto> Dir,
                           joinpath ddir ''platformio_env.sh'' \<mapsto>
                             File (''export PLATFORMIO_CORE_DIR=''
                                   @ path_str (platform w) (joinpath ddir ''platformio'')
                                   @ [CHR 0x0A])),
              trace := trace s @ [LogLine ''[setup] Configuring PlatformIO'',
                                  LogLine (''[setup] PlatformIO configured to use ''
                                           @ path_str (platform w) (joinpath ddir ''platformio''))]\<rparr>)"
proof -
  have ne: "joinpath ddir ''platformio_env.sh'' \<noteq> joinpath ddir ''platformio''"
    by (simp add: joinpath_def)
  have m: "mkdir True (joinpath ddir ''platformio'') (fs s)
             = Inr ((fs s)(joinpath ddir ''platformio'' \<mapsto> Dir))"
    using assms(1,2) by (rule mkdir_child)
  have "is_dir ddir ((fs s)(joinpath ddir ''platformio'' \<mapsto> Dir))"
    using assms(1) by (simp add: is_dir_upd_child)
  moreover have "((fs s)(joinpath ddir ''platformio'' \<mapsto> Dir)) (joinpath ddir ''platformio_env.sh'')
                   \<noteq> Some Dir"
    using assms(3) ne by simp
  ultimately have wr: "write_file (joinpath ddir ''platformio_env.sh'') (config_text w ddir)
              ((fs s)(joinpath ddir ''platformio'' \<mapsto> Dir))
            = Inr ((fs s)(joinpath ddir ''platformio'' \<mapsto> Dir,
                          joinpath ddir ''platformio_env.sh'' \<mapsto> File (config_text w ddir)))"
    by (rule write_file_child)
  have "configure_platformio w vp ddir s =
          (Inr (), log (''PlatformIO configured to use ''
                        @ path_str (platform w) (joinpath ddir ''platformio''))
                     ((log ''Configuring PlatformIO'' s)
                        \<lparr>fs := (fs s)(joinpath ddir ''platformio'' \<mapsto> Dir,
                                      joinpath ddir ''platformio_env.sh'' \<mapsto>
                                        File (config_text w ddir))\<rparr>))"
    by (simp add: configure_platformio_def Let_def fs_log m wr)
  then show ?thesis
    by (simp add: log_def config_text_def)
qed

theorem configure_platformio_writes_config_witness:
  "configure_platformio (host ''linux'' all_fine) ''/d/venv/bin/python'' (Path ''/'' [''d''])
     \<lparr>fs = root_only(Path ''/'' [''d''] \<mapsto> Dir,
                     Path ''/'' [''d'', ''platformio''] \<mapsto> Dir,
                     Path ''/'' [''d'', ''platformio_env.sh''] \<mapsto> File ''old''),
      trace = []\<rparr>
   = (Inr (),
      \<lparr>fs = root_only(Path ''/'' [''d''] \<mapsto> Dir,
                     Path ''/'' [''d'', ''platformio''] \<mapsto> Dir,
                     Path ''/'' [''d'', ''platformio_env.sh''] \<mapsto>
                       File (''export PLATFORMIO_CORE_DIR=/d/platformio'' @ [CHR 0x0A])),
       trace = [LogLine ''[setup] Configuring PlatformIO'',
                LogLine ''[setup] PlatformIO configured to use /d/platformio'']\<rparr>)"
  using configure_platformio_writes_config
    [of "Path ''/'' [''d'']"
        "\<lparr>fs = root_only(Path ''/'' [''d''] \<mapsto> Dir,
                     Path ''/'' [''d'', ''platformio''] \<mapsto> Dir,
                     Path ''/'' [''d'', ''platformio_env.sh''] \<mapsto> File ''old''),
          trace = []\<rparr>"
        "host ''linux'' all_fine" "''/d/venv/bin/python''"]
  by (simp add: is_dir_def joinpath_def root_only_def path_str_def path_sep_def host_def fun_upd_twist)

text \<open>
  The claim as it was stated, for every run, fails where the name \<open>platformio\<close> already
  exists as a file: \<open>mkdir(exist_ok=True)\<close> raises \<open>FileExistsError\<close>, the configuration
  file is not written and \<open>main\<close> returns 1.
\<close>

theorem configure_platformio_clash_counterexample:
  "fs clashing (joinpath (Path ''/'' [''d'']) ''platformio'') = Some (File [])
   \<and> configure_platformio (host ''linux'' all_fine) ''/d/venv/bin/python'' (Path ''/'' [''d'']) clashing
     = (Inl (OSError EEXIST (Path ''/'' [''d'', ''platformio''])),
        clashing\<lparr>trace := [LogLine ''[setup] Configuring PlatformIO'']\<rparr>)
   \<and> fst (main (host ''linux'' all_fine) (demo_args False) clashing) = Inr 1
   \<and> fs (snd (main (host ''linux'' all_fine) (demo_args False) clashing))
        (Path ''/'' [''d'', ''platformio_env.sh'']) = None"
  by (simp add: run_defs clashing_def)

text \<open>
  C10. \<open>configure_platformio\<close> never reads its interpreter path: with the same host,
  data directory and state, two interpreter paths give the same result, the same file
  system, so the same configuration file and cache directory, and the same log.
\<close>

theorem configure_platformio_ignores_interpreter:
  "configure_platformio w vp1 ddir s = configure_platformio w vp2 ddir s"
  by (simp add: configure_platformio_def)

section \<open>The path of a failed verification\<close>

lemma configure_platformio_emits:
  "\<exists>ls. trace (snd (configure_platformio w vp ddir s)) = trace s @ map LogLine ls"
proof -
  have "\<exists>ls. [LogLine a] = map LogLine ls" for a by (rule exI [of _ "[a]"]) simp
  moreover have "\<exists>ls. [LogLine a, LogLine b] = map LogLine ls" for a b
    by (rule exI [of _ "[a, b]"]) simp
  ultimately show ?thesis
    by (simp add: configure_platformio_def Let_def log_def split: sum.splits)
qed

lemma main_verification_nonzero:
  assumes "resolve w (data_dir a) (fs s0) = Inr ddir"
      and "mkdir_parents ddir (fs s0) = Inr fs1"
      and "create_venv w (joinpath ddir ''venv'') (python a) (s0\<lparr>fs := fs1\<rparr>) = (Inr (), s1)"
      and "install_esphome w (get_venv_python w (joinpath ddir ''venv'')) (offline a) s1
             = (Inr (), s2)"
      and "configure_platformio w (get_venv_python w (joinpath ddir ''venv'')) ddir s2
             = (Inr (), s3)"
      and "proc w (version_cmd (get_venv_python w (joinpath ddir ''venv''))) (fs s3)
             = (Exited rc out err, fsys)"
      and "rc \<noteq> 0"
  shows "main w a s0 =
           (Inr 1,
            s3\<lparr>fs := fsys,
               trace := trace s3 @
                 [LogLine ''[setup] Verifying installation'',
                  Run (version_cmd (get_venv_python w (joinpath ddir ''venv''))) True None,
                  LogLine (''[setup] Verification failed: ''
                     @ exn_str w (CalledProcessError
                          (version_cmd (get_venv_python w (joinpath ddir ''venv''))) rc None None)),
                  LogLine ''[setup] Installation verification failed!'']\<rparr>)"
  by (simp add: main_after_prep [OF assms(1,2)] main_steps_def Let_def assms(3,4,5)
        verify_installation_nonzero [OF assms(6,7)] main_handlers_def log_def)

lemma demo_version_fails:
  "create_venv (host ''linux'' (fails_on (version_cmd ''/d/venv/bin/python'')))
     (joinpath (Path ''/'' [''d'']) ''venv'') (python (demo_args False))
     (start\<lparr>fs := root_only(Path ''/'' [''d''] \<mapsto> Dir)\<rparr>)
   = (Inr (),
      \<lparr>fs = root_only(Path ''/'' [''d''] \<mapsto> Dir),
       trace = [LogLine ''[setup] Creating virtual environment at /d/venv'',
                Run [''python3'', ''-m'', ''venv'', ''/d/venv''] False None,
                PassThrough ''Version: 2024.6.0'' []]\<rparr>)"
  "install_esphome (host ''linux'' (fails_on (version_cmd ''/d/venv/bin/python'')))
     (get_venv_python (host ''linux'' (fails_on (version_cmd ''/d/venv/bin/python'')))
        (joinpath (Path ''/'' [''d'']) ''venv''))
     (offline (demo_args False))
     \<lparr>fs = root_only(Path ''/'' [''d''] \<mapsto> Dir),
      trace = [LogLine ''[setup] Creating virtual environment at /d/venv'',
               Run [''python3'', ''-m'', ''venv'', ''/d/venv''] False None,
               PassThrough ''Version: 2024.6.0'' []]\<rparr>
   = (Inr (),
      \<lparr>fs = root_only(Path ''/'' [''d''] \<mapsto> Dir),
       trace = [LogLine ''[setup] Creating virtual environment at /d/venv'',
                Run [''python3'', ''-m'', ''venv'', ''/d/venv''] False None,
                PassThrough ''Version: 2024.6.0'' [],
                LogLine ''[setup] Upgrading pip'',
                Run (upgrade_cmd ''/d/venv/bin/python'') False None,
                PassThrough ''Version: 2024.6.0'' [],
                LogLine ''[setup] Installing ESPHome'',
                Run (install_cmd ''/d/venv/bin/python'' False) False None,
                PassThrough ''Version: 2024.6.0'' []]\<rparr>)"
  "configure_platformio (host ''linux'' (fails_on (version_cmd ''/d/venv/bin/python'')))
     (get_venv_python (host ''linux'' (fails_on (version_cmd ''/d/venv/bin/python'')))
        (joinpath (Path ''/'' [''d'']) ''venv''))
     (Path ''/'' [''d''])
     \<lparr>fs = root_only(Path ''/'' [''d''] \<mapsto> Dir),
      trace = [LogLine ''[setup] Creating virtual environment at /d/venv'',
               Run [''python3'', ''-m'', ''venv'', ''/d/venv''] False None,
               PassThrough ''Version: 2024.6.0'' [],
               LogLine ''[setup] Upgrading pip'',
               Run (upgrade_cmd ''/d/venv/bin/python'') False None,
               PassThrough ''Version: 2024.6.0'' [],
               LogLine ''[setup] Installing ESPHome'',
               Run (install_cmd ''/d/venv/bin/python'' False) False None,
               PassThrough ''Version: 2024.6.0'' []]\<rparr>
   = (Inr (),
      \<lparr>fs = root_only(Path ''/'' [''d''] \<mapsto> Dir,
                     Path ''/'' [''d'', ''platformio''] \<mapsto> Dir,
                     Path ''/'' [''d'', ''platformio_env.sh''] \<mapsto>
                       File (''export PLATFORMIO_CORE_DIR=/d/platformio'' @ [CHR 0x0A])),
       trace = [LogLine ''[setup] Creating virtual environment at /d/venv'',
                Run [''python3'', ''-m'', ''venv'', ''/d/venv''] False None,
                PassThrough ''Version: 2024.6.0'' [],
                LogLine ''[setup] Upgrading pip'',
                Run (upgrade_cmd ''/d/venv/bin/python'') False None,
                PassThrough ''Version: 2024.6.0'' [],
                LogLine ''[setup] Installing ESPHome'',
                Run (install_cmd ''/d/venv/bin/python'' False) False None,
                PassThrough ''Version: 2024.6.0'' [],
                LogLine ''[setup] Configuring PlatformIO'',
                LogLine ''[setup] PlatformIO configured to use /d/platformio'']\<rparr>)"
  "proc (host ''linux'' (fails_on (version_cmd ''/d/venv/bin/python'')))
     (version_cmd (get_venv_python (host ''linux'' (fails_on (version_cmd ''/d/venv/bin/python'')))
        (joinpath (Path ''/'' [''d'']) ''venv'')))
     fsys = (Exited 1 [] ''boom'', fsys)"
  by (simp_all add: run_defs)

text \<open>
  C2. When the version command exits with a code other than 0, \<open>verify_installation\<close>
  returns \<open>False\<close> and raises nothing; \<open>main\<close>, once the earlier steps have succeeded,
  then logs the line \<open>Installation verification failed!\<close>, which is not one of the two
  lines of its exception handlers, and returns 1. No other step turns the failure of a
  subprocess into a value: \<open>create_venv\<close> and \<open>install_esphome\<close>, for either of its two
  commands, raise the \<open>CalledProcessError\<close>, and \<open>configure_platformio\<close> runs no
  subprocess, it only logs.
\<close>

theorem verification_failure_path:
  assumes "rc \<noteq> 0"
  shows "(proc w (version_cmd vp) (fs s) = (Exited rc out err, fsys) \<longrightarrow>
            fst (verify_installation w vp s) = Inr False)
       \<and> (resolve w (data_dir a) (fs s0) = Inr ddir
          \<and> mkdir_parents ddir (fs s0) = Inr fs1
          \<and> create_venv w (joinpath ddir ''venv'') (python a) (s0\<lparr>fs := fs1\<rparr>) = (Inr (), s1)
          \<and> install_esphome w (get_venv_python w (joinpath ddir ''venv'')) (offline a) s1
              = (Inr (), s2)
          \<and> configure_platformio w (get_venv_python w (joinpath ddir ''venv'')) ddir s2
              = (Inr (), s3)
          \<and> proc w (version_cmd (get_venv_python w (joinpath ddir ''venv''))) (fs s3)
              = (Exited rc out err, fsys) \<longrightarrow>
            main w a s0 =
              (Inr 1,
               s3\<lparr>fs := fsys,
                  trace := trace s3 @
                    [LogLine ''[setup] Verifying installation'',
                     Run (version_cmd (get_venv_python w (joinpath ddir ''venv''))) True None,
                     LogLine (''[setup] Verification failed: ''
                        @ exn_str w (CalledProcessError
                             (version_cmd (get_venv_python w (joinpath ddir ''venv'')))
                             rc None None)),
                     LogLine ''[setup] Installation verification failed!'']\<rparr>))
       \<and> (proc w (venv_cmd w vd py) (fs s) = (Exited rc out err, fsys) \<longrightarrow>
            fst (create_venv w vd py s) = Inl (CalledProcessError (venv_cmd w vd py) rc None None))
       \<and> (proc w (upgrade_cmd vp) (fs s) = (Exited rc out err, fsys) \<longrightarrow>
            fst (install_esphome w vp offl s)
              = Inl (CalledProcessError (upgrade_cmd vp) rc None None))
       \<and> (proc w (upgrade_cmd vp) (fs s) = (Exited 0 out' err', fsys')
          \<and> proc w (install_cmd vp offl) fsys' = (Exited rc out err, fsys) \<longrightarrow>
            fst (install_esphome w vp offl s)
              = Inl (CalledProcessError (install_cmd vp offl) rc None None))
       \<and> (\<exists>ls. trace (snd (configure_platformio w vp ddir s)) = trace s @ map LogLine ls)"
  using assms
  by (simp add: verify_installation_nonzero main_verification_nonzero create_venv_nonzero
        install_esphome_upgrade_nonzero install_esphome_install_nonzero
        configure_platformio_emits)

theorem verification_failure_path_witness:
  "fst (main (host ''linux'' (fails_on (version_cmd ''/d/venv/bin/python''))) (demo_args False) start)
     = Inr 1
   \<and> last (trace (snd (main (host ''linux'' (fails_on (version_cmd ''/d/venv/bin/python'')))
                         (demo_args False) start)))
     = LogLine ''[setup] Installation verification failed!''"
proof -
  have nz: "(1::int) \<noteq> 0" by simp
  note t = verification_failure_path [OF nz, THEN conjunct2, THEN conjunct1, rule_format,
      OF conjI [OF demo_prep(1) conjI [OF demo_prep(2) conjI [OF demo_version_fails(1)
        conjI [OF demo_version_fails(2) conjI [OF demo_version_fails(3) demo_version_fails(4)]]]]]]
  show ?thesis unfolding t by simp
qed

section \<open>The offline installation\<close>

text \<open>
  C9. With the offline flag the install command ends in \<open>--find-links wheels\<close>: the
  local source is the bare relative name \<open>wheels\<close>, whatever the interpreter path, and
  so whatever the data directory it was derived from. The command is run with no
  working directory of its own, so the child inherits the script's and the name is
  read against that.
\<close>

theorem offline_local_source_is_wheels:
  "install_cmd vp True
     = [vp, ''-m'', ''pip'', ''install'', ''esphome'', ''--no-index'', ''--find-links'', ''wheels'']
   \<and> (proc w (upgrade_cmd vp) (fs s) = (Exited 0 out err, fsys) \<longrightarrow>
       (\<exists>evs. trace (snd (install_esphome w vp True s)) =
          trace s @ [LogLine ''[setup] Upgrading pip'',
                     Run (upgrade_cmd vp) False None,
                     PassThrough out err,
                     LogLine ''[setup] Installing ESPHome'',
                     Run [vp, ''-m'', ''pip'', ''install'', ''esphome'',
                          ''--no-index'', ''--find-links'', ''wheels''] False None] @ evs))"
  by (auto simp add: install_cmd_def install_esphome_def log_def subprocess_run_def Let_def
        split: prod.splits proc_outcome.splits)

theorem offline_local_source_is_wheels_witness:
  "Run [''py'', ''-m'', ''pip'', ''install'', ''esphome'', ''--no-index'', ''--find-links'', ''wheels'']
     False None
   \<in> set (trace (snd (install_esphome (host ''linux'' all_fine) ''py'' True start)))"
  using offline_local_source_is_wheels
    [of "''py''" "host ''linux'' all_fine" start "''Version: 2024.6.0''" "[]" root_only]
  by (auto simp add: host_def all_fine_def start_def)

section \<open>The offline flag\<close>

lemma main_steps_split:
  "main_steps w a ddir s =
     (case create_venv w (joinpath ddir ''venv'') (python a) s of
        (Inl e, s1) \<Rightarrow> (Inl e, s1)
      | (Inr u, s1) \<Rightarrow>
          (case install_esphome w (get_venv_python w (joinpath ddir ''venv'')) (offline a) s1 of
             (Inl e, s2) \<Rightarrow> (Inl e, s2)
           | (Inr u', s2) \<Rightarrow> after_install w (get_venv_python w (joinpath ddir ''venv'')) ddir s2))"
  by (simp add: main_steps_def after_install_def Let_def split: prod.splits sum.splits)

lemma install_failure_line:
  "prefix (install_failure_prefix vp)
     (''[setup] Setup failed: '' @ exn_str w (CalledProcessError (install_cmd vp b) rc out err))"
  by (simp add: install_failure_prefix_def exn_str_def repr_list_def install_cmd_def prefix_def
        split: option.splits)

lemma install_blind_run:
  "install_blind vp (Run (install_cmd vp b) cap cw) = Run (install_cmd vp False) cap cw"
  by (simp add: install_blind_def install_cmd_def)

lemma install_blind_failure:
  "install_blind vp (LogLine (''[setup] Setup failed: ''
      @ exn_str w (CalledProcessError (install_cmd vp b) rc out err)))
   = LogLine (install_failure_prefix vp)"
  using install_failure_line [of vp w b rc out err] by (simp add: install_blind_def)

lemma main_handlers_blind:
  assumes "fs t1 = fs t0"
      and "map (install_blind vp) (trace t1) = map (install_blind vp) (trace t0)"
      and "x1 = x0 \<or> (\<exists>rc. x1 = Inl (CalledProcessError (install_cmd vp True) rc None None)
                        \<and> x0 = Inl (CalledProcessError (install_cmd vp False) rc None None))"
  shows "fst (main_handlers w (x1, t1)) = fst (main_handlers w (x0, t0))
       \<and> fs (snd (main_handlers w (x1, t1))) = fs (snd (main_handlers w (x0, t0)))
       \<and> map (install_blind vp) (trace (snd (main_handlers w (x1, t1))))
         = map (install_blind vp) (trace (snd (main_handlers w (x0, t0))))"
  using assms(3)
proof
  assume "x1 = x0"
  with assms(1,2) show ?thesis
    by (cases x0) (simp_all add: main_handlers_raised, simp add: main_handlers_def)
next
  assume "\<exists>rc. x1 = Inl (CalledProcessError (install_cmd vp True) rc None None)
              \<and> x0 = Inl (CalledProcessError (install_cmd vp False) rc None None)"
  then obtain rc where
    x: "x1 = Inl (CalledProcessError (install_cmd vp True) rc None None)"
       "x0 = Inl (CalledProcessError (install_cmd vp False) rc None None)"
    by blast
  define L1 where "L1 = LogLine (''[setup] '' @ ''Setup failed: ''
              @ exn_str w (CalledProcessError (install_cmd vp True) rc None None))"
  define L0 where "L0 = LogLine (''[setup] '' @ ''Setup failed: ''
              @ exn_str w (CalledProcessError (install_cmd vp False) rc None None))"
  have l: "install_blind vp L1 = install_blind vp L0"
    unfolding L1_def L0_def
    using install_blind_failure [of vp w True rc None None]
          install_blind_failure [of vp w False rc None None] by simp
  have h1: "main_handlers w (x1, t1) = (Inr 1, t1\<lparr>trace := trace t1 @ [L1]\<rparr>)"
    unfolding x main_handlers_raised L1_def by simp
  have h0: "main_handlers w (x0, t0) = (Inr 1, t0\<lparr>trace := trace t0 @ [L0]\<rparr>)"
    unfolding x main_handlers_raised L0_def by simp
  show ?thesis
    unfolding h1 h0 using assms(1,2) l by simp
qed

lemma subprocess_run_shape:
  "\<exists>r fsys evs. \<forall>t. subprocess_run w c cap \<lparr>fs = f, trace = t\<rparr>
      = (r, \<lparr>fs = fsys, trace = t @ evs\<rparr>)"
proof (cases "proc w c f")
  case (Pair o' fsys)
  show ?thesis
  proof (cases o')
    case (Exited rc out err)
    show ?thesis
      by (cases "rc = 0") (simp_all add: subprocess_run_def Let_def Pair Exited)
  next
    case (SpawnFault msg)
    show ?thesis
      by (simp add: subprocess_run_def Pair SpawnFault)
  qed
qed

lemma verify_installation_shape:
  "\<exists>r fsys evs. \<forall>t. verify_installation w vp \<lparr>fs = f, trace = t\<rparr>
      = (r, \<lparr>fs = fsys, trace = t @ evs\<rparr>)"
proof -
  obtain r fsys evs where
    run: "\<And>t. subprocess_run w (version_cmd vp) True \<lparr>fs = f, trace = t\<rparr>
            = (r, \<lparr>fs = fsys, trace = t @ evs\<rparr>)"
    using subprocess_run_shape [of w "version_cmd vp" True f] by blast
  show ?thesis
  proof (cases r)
    case (Inl e)
    then show ?thesis
      by (cases e) (simp_all add: verify_installation_def log_def run)
  next
    case (Inr c)
    then show ?thesis
      by (cases "stdout c") (simp_all add: verify_installation_def log_def run)
  qed
qed

lemma configure_platformio_shape:
  "\<exists>r fsys evs. \<forall>t. configure_platformio w vp ddir \<lparr>fs = f, trace = t\<rparr>
      = (r, \<lparr>fs = fsys, trace = t @ evs\<rparr>)"
proof (cases "mkdir True (joinpath ddir ''platformio'') f")
  case (Inl e)
  then show ?thesis by (simp add: configure_platformio_def log_def Let_def)
next
  case (Inr fs2)
  then show ?thesis
    by (cases "write_file (joinpath ddir ''platformio_env.sh'') (config_text w ddir) fs2")
       (simp_all add: configure_platformio_def log_def Let_def)
qed

lemma after_install_shape:
  "\<exists>r fsys evs. \<forall>t. after_install w vp ddir \<lparr>fs = f, trace = t\<rparr>
      = (r, \<lparr>fs = fsys, trace = t @ evs\<rparr>)"
proof -
  obtain r3 f3 evs3 where
    c: "\<And>t. configure_platformio w vp ddir \<lparr>fs = f, trace = t\<rparr>
            = (r3, \<lparr>fs = f3, trace = t @ evs3\<rparr>)"
    using configure_platformio_shape [of w vp ddir f] by blast
  obtain r4 f4 evs4 where
    v: "\<And>t. verify_installation w vp \<lparr>fs = f3, trace = t\<rparr>
            = (r4, \<lparr>fs = f4, trace = t @ evs4\<rparr>)"
    using verify_installation_shape [of w vp f3] by blast
  show ?thesis
  proof (cases r3)
    case (Inl e)
    then show ?thesis by (simp add: after_install_def c)
  next
    case (Inr u)
    show ?thesis
    proof (cases r4)
      case (Inl e)
      then show ?thesis by (simp add: after_install_def c v Inr)
    next
      case ok: (Inr b)
      show ?thesis
        by (cases b) (simp_all add: after_install_def c v Inr ok log_def)
    qed
  qed
qed

lemma install_esphome_offline:
  assumes "proc w (install_cmd vp True) = proc w (install_cmd vp False)"
  shows "fs (snd (install_esphome w vp True s)) = fs (snd (install_esphome w vp False s))
       \<and> map (install_blind vp) (trace (snd (install_esphome w vp True s)))
         = map (install_blind vp) (trace (snd (install_esphome w vp False s)))
       \<and> (fst (install_esphome w vp True s) = fst (install_esphome w vp False s)
          \<or> (\<exists>rc. fst (install_esphome w vp True s)
                     = Inl (CalledProcessError (install_cmd vp True) rc None None)
                \<and> fst (install_esphome w vp False s)
                     = Inl (CalledProcessError (install_cmd vp False) rc None None)))"
proof (cases "subprocess_run w (upgrade_cmd vp) False (log ''Upgrading pip'' s)")
  case (Pair r2 s2)
  show ?thesis
  proof (cases r2)
    case (Inl e)
    then show ?thesis by (simp add: install_esphome_def Pair)
  next
    case (Inr c)
    have ie: "install_esphome w vp b s =
                (case subprocess_run w (install_cmd vp b) False (log ''Installing ESPHome'' s2) of
                   (Inl e, s4) \<Rightarrow> (Inl e, s4)
                 | (Inr r', s4) \<Rightarrow> (Inr (), s4))" for b
      by (simp add: install_esphome_def Pair Inr)
    show ?thesis
    proof (cases "proc w (install_cmd vp False) (fs s2)")
      case pr: (Pair o' fsys)
      have p: "proc w (install_cmd vp b) (fs (log ''Installing ESPHome'' s2)) = (o', fsys)" for b
        using assms pr by (cases b) (simp_all add: fs_log)
      show ?thesis
      proof (cases o')
        case (Exited rc out err)
        show ?thesis
        proof (cases "rc = 0")
          case True
          show ?thesis
            by (simp add: ie subprocess_run_zero [OF p [unfolded Exited True]] install_blind_run)
        next
          case False
          show ?thesis
            by (simp add: ie subprocess_run_nonzero [OF p [unfolded Exited] False]
                  install_blind_run)
        qed
      next
        case (SpawnFault msg)
        show ?thesis
          by (simp add: ie subprocess_run_fault [OF p [unfolded SpawnFault]] install_blind_run)
      qed
    qed
  qed
qed

lemma main_steps_offline:
  assumes "proc w (install_cmd (get_venv_python w (joinpath ddir ''venv'')) True)
           = proc w (install_cmd (get_venv_python w (joinpath ddir ''venv'')) False)"
  shows "fs (snd (main_steps w (a\<lparr>offline := True\<rparr>) ddir s))
         = fs (snd (main_steps w (a\<lparr>offline := False\<rparr>) ddir s))
       \<and> map (install_blind (get_venv_python w (joinpath ddir ''venv'')))
           (trace (snd (main_steps w (a\<lparr>offline := True\<rparr>) ddir s)))
         = map (install_blind (get_venv_python w (joinpath ddir ''venv'')))
             (trace (snd (main_steps w (a\<lparr>offline := False\<rparr>) ddir s)))
       \<and> (fst (main_steps w (a\<lparr>offline := True\<rparr>) ddir s)
            = fst (main_steps w (a\<lparr>offline := False\<rparr>) ddir s)
          \<or> (\<exists>rc. fst (main_steps w (a\<lparr>offline := True\<rparr>) ddir s)
                     = Inl (CalledProcessError
                              (install_cmd (get_venv_python w (joinpath ddir ''venv'')) True)
                              rc None None)
                \<and> fst (main_steps w (a\<lparr>offline := False\<rparr>) ddir s)
                     = Inl (CalledProcessError
                              (install_cmd (get_venv_python w (joinpath ddir ''venv'')) False)
                              rc None None)))"
proof -
  let ?vp = "get_venv_python w (joinpath ddir ''venv'')"
  obtain r1 s1 where cv: "create_venv w (joinpath ddir ''venv'') (python a) s = (r1, s1)"
    by fastforce
  show ?thesis
  proof (cases r1)
    case (Inl e)
    then show ?thesis by (simp add: main_steps_split cv)
  next
    case (Inr u)
    obtain y1 u1 where i1: "install_esphome w ?vp True s1 = (y1, u1)" by fastforce
    obtain y0 u0 where i0: "install_esphome w ?vp False s1 = (y0, u0)" by fastforce
    from install_esphome_offline [OF assms, of s1] have
      rel: "fs u1 = fs u0"
           "map (install_blind ?vp) (trace u1) = map (install_blind ?vp) (trace u0)"
           "y1 = y0 \<or> (\<exists>rc. y1 = Inl (CalledProcessError (install_cmd ?vp True) rc None None)
                            \<and> y0 = Inl (CalledProcessError (install_cmd ?vp False) rc None None))"
      by (simp_all add: i1 i0)
    show ?thesis
    proof (cases y1)
      case y: (Inl e)
      with rel(3) obtain e' where "y0 = Inl e'" by auto
      with y rel show ?thesis by (simp add: main_steps_split cv Inr i1 i0)
    next
      case y: (Inr v)
      with rel(3) have y0: "y0 = Inr v" by auto
      obtain r fsys evs where
        sh: "\<And>t. after_install w ?vp ddir \<lparr>fs = fs u0, trace = t\<rparr>
               = (r, \<lparr>fs = fsys, trace = t @ evs\<rparr>)"
        using after_install_shape [of w ?vp ddir "fs u0"] by blast
      have u1: "u1 = \<lparr>fs = fs u0, trace = trace u1\<rparr>" using rel(1) by simp
      have u0: "u0 = \<lparr>fs = fs u0, trace = trace u0\<rparr>" by simp
      have a1: "after_install w ?vp ddir u1 = (r, \<lparr>fs = fsys, trace = trace u1 @ evs\<rparr>)"
        using sh [of "trace u1"] u1 by simp
      have a0: "after_install w ?vp ddir u0 = (r, \<lparr>fs = fsys, trace = trace u0 @ evs\<rparr>)"
        using sh [of "trace u0"] u0 by simp
      show ?thesis
        using rel(2) by (simp add: main_steps_split cv Inr i1 i0 y y0 a1 a0)
    qed
  qed
qed

lemma demo_same_answer:
  "proc (host plat all_fine) (install_cmd vp True) = proc (host plat all_fine) (install_cmd vp False)"
  by (simp add: host_def all_fine_def)

text \<open>
  C5, as amended. When the installer answers the install command with the offline
  arguments as it answers the plain one, the run with the offline flag and the run without
  it return the same exit code and leave the same file system, and their traces are
  the same event for event once the arguments of the install command are out of sight:
  every other command, every output and every other log line is the same.
\<close>

theorem offline_changes_install_arguments_only:
  assumes "resolve w (data_dir a) (fs s) = Inr ddir"
      and "proc w (install_cmd (get_venv_python w (joinpath ddir ''venv'')) True)
           = proc w (install_cmd (get_venv_python w (joinpath ddir ''venv'')) False)"
  shows "fst (main w (a\<lparr>offline := True\<rparr>) s) = fst (main w (a\<lparr>offline := False\<rparr>) s)
       \<and> fs (snd (main w (a\<lparr>offline := True\<rparr>) s)) = fs (snd (main w (a\<lparr>offline := False\<rparr>) s))
       \<and> map (install_blind (get_venv_python w (joinpath ddir ''venv'')))
           (trace (snd (main w (a\<lparr>offline := True\<rparr>) s)))
         = map (install_blind (get_venv_python w (joinpath ddir ''venv'')))
             (trace (snd (main w (a\<lparr>offline := False\<rparr>) s)))"
proof (cases "mkdir_parents ddir (fs s)")
  case (Inl e)
  then show ?thesis using assms(1) by (simp add: main_def)
next
  case (Inr fs1)
  have m: "main w (a\<lparr>offline := b\<rparr>) s
             = main_handlers w (main_steps w (a\<lparr>offline := b\<rparr>) ddir (s\<lparr>fs := fs1\<rparr>))" for b
    using assms(1) Inr by (simp add: main_def)
  obtain x1 t1 where on: "main_steps w (a\<lparr>offline := True\<rparr>) ddir (s\<lparr>fs := fs1\<rparr>) = (x1, t1)"
    by fastforce
  obtain x0 t0 where off: "main_steps w (a\<lparr>offline := False\<rparr>) ddir (s\<lparr>fs := fs1\<rparr>) = (x0, t0)"
    by fastforce
  from main_steps_offline [OF assms(2), of a "s\<lparr>fs := fs1\<rparr>"] have
    "fs t1 = fs t0"
    "map (install_blind (get_venv_python w (joinpath ddir ''venv''))) (trace t1)
       = map (install_blind (get_venv_python w (joinpath ddir ''venv''))) (trace t0)"
    "x1 = x0 \<or> (\<exists>rc. x1 = Inl (CalledProcessError
                              (install_cmd (get_venv_python w (joinpath ddir ''venv'')) True)
                              rc None None)
                     \<and> x0 = Inl (CalledProcessError
                              (install_cmd (get_venv_python w (joinpath ddir ''venv'')) False)
                              rc None None))"
    by (simp_all add: on off)
  then show ?thesis
    unfolding m on off by (rule main_handlers_blind)
qed

theorem offline_changes_install_arguments_only_witness:
  "fst (main (host ''linux'' all_fine) ((demo_args False)\<lparr>offline := True\<rparr>) start)
     = fst (main (host ''linux'' all_fine) ((demo_args False)\<lparr>offline := False\<rparr>) start)
   \<and> fs (snd (main (host ''linux'' all_fine) ((demo_args False)\<lparr>offline := True\<rparr>) start))
     = fs (snd (main (host ''linux'' all_fine) ((demo_args False)\<lparr>offline := False\<rparr>) start))
   \<and> map (install_blind (get_venv_python (host ''linux'' all_fine)
                           (joinpath (Path ''/'' [''d'']) ''venv'')))
       (trace (snd (main (host ''linux'' all_fine) ((demo_args False)\<lparr>offline := True\<rparr>) start)))
     = map (install_blind (get_venv_python (host ''linux'' all_fine)
                             (joinpath (Path ''/'' [''d'']) ''venv'')))
         (trace (snd (main (host ''linux'' all_fine) ((demo_args False)\<lparr>offline := False\<rparr>) start)))"
  by (rule offline_changes_install_arguments_only [OF demo_prep(1) demo_same_answer])

text \<open>
  The claim as it was stated, for any two runs that differ in the flag alone, fails on a
  host where the install command succeeds from the index and fails with the offline
  arguments (no local archives): the offline run stops at the installation and returns
  1 with no configuration file written, the other run writes it and returns 0.
\<close>

theorem offline_install_failure_counterexample:
  "fst (main (host ''linux'' (fails_on (install_cmd ''/d/venv/bin/python'' True)))
          (demo_args True) start) = Inr 1
   \<and> fst (main (host ''linux'' (fails_on (install_cmd ''/d/venv/bin/python'' True)))
          (demo_args False) start) = Inr 0
   \<and> fs (snd (main (host ''linux'' (fails_on (install_cmd ''/d/venv/bin/python'' True)))
                 (demo_args True) start))
        (Path ''/'' [''d'', ''platformio_env.sh'']) = None
   \<and> fs (snd (main (host ''linux'' (fails_on (install_cmd ''/d/venv/bin/python'' True)))
                 (demo_args False) start))
        (Path ''/'' [''d'', ''platformio_env.sh''])
     = Some (File (''export PLATFORMIO_CORE_DIR=/d/platformio'' @ [CHR 0x0A]))"
  by (simp add: run_defs)

end
